theory Spec2Isabelle
  imports Complex_Main
begin

section \<open>Numbers\<close>

text \<open>
  The module computes on Python floats. Every amount is modelled as an exact rational
  number, so a product such as \<open>taxable_in_bracket * rate\<close> is the exact product; the
  binary representation error of IEEE doubles is not part of the model. The one float
  of the module that is not a rational, \<open>float('inf')\<close> in the bracket table, is a
  constructor of its own.

  \<open>round(x, 2)\<close> of Python 3 rounds to the nearest multiple of \<open>10 ^ -2\<close>, a tie going
  to the even neighbour.
\<close>

definition round_half_even :: "rat \<Rightarrow> int" where
  "round_half_even x =
     (let f = \<lfloor>x\<rfloor>; d = x - of_int f
      in if d < 1 / 2 then f
         else if 1 / 2 < d then f + 1
         else if even f then f else f + 1)"

definition py_round :: "rat \<Rightarrow> nat \<Rightarrow> rat" where
  "py_round x ndigits = of_int (round_half_even (x * 10 ^ ndigits)) / 10 ^ ndigits"

datatype limit = Finite rat | PosInf

text \<open>
  \<open>bracket_limit - previous_bracket_limit\<close> and \<open>min(remaining_income, bracket_size)\<close>
  on a limit that may be \<open>float('inf')\<close>. In the table \<open>inf\<close> is the last limit, so it is
  never the subtrahend; the third equation of \<open>limit_minus\<close> is there for totality only.
\<close>

fun limit_minus :: "limit \<Rightarrow> limit \<Rightarrow> limit" where
  "limit_minus (Finite hi) (Finite lo) = Finite (hi - lo)"
| "limit_minus PosInf (Finite lo) = PosInf"
| "limit_minus hi PosInf = PosInf"

fun min_limit :: "rat \<Rightarrow> limit \<Rightarrow> rat" where
  "min_limit x (Finite y) = min x y"
| "min_limit x PosInf = x"

section \<open>Strings\<close>




section \<open>Tax constants\<close>

definition INCOME_TAX_BRACKETS :: "(limit \<times> rat) list" where
  "INCOME_TAX_BRACKETS =
     [(Finite 10000.00, 0.09),
      (Finite 20000.00, 0.22),
      (Finite 30000.00, 0.28),
      (Finite 40000.00, 0.36),
      (PosInf, 0.44)]"

definition VAT_RATE :: rat where
  "VAT_RATE = 0.24"

definition EFKA_MAIN_RATE :: rat where
  "EFKA_MAIN_RATE = 0.1333"

definition EFKA_ADDITIONAL_RATE :: rat where
  "EFKA_ADDITIONAL_RATE = 0.0667"

definition EFKA_TOTAL_RATE :: rat where
  "EFKA_TOTAL_RATE = EFKA_MAIN_RATE + EFKA_ADDITIONAL_RATE"


section \<open>Core tax calculation functions\<close>

text \<open>
  The dictionaries the functions return have fixed string keys; each is a record whose
  fields are the keys. Where a key is also the name of a parameter or of a local
  variable of the function, the definition binds the variable by \<open>\<lambda>\<close> or \<open>let\<close>.
\<close>

definition calculate_taxable_income :: "rat \<Rightarrow> rat \<Rightarrow> rat" where
  "calculate_taxable_income gross_income deductible_expenses =
     (let taxable = max 0 (gross_income - deductible_expenses)
      in py_round taxable 2)"

datatype float_or_str = Float rat | Str string

record bracket =
  bracket_min :: limit
  bracket_max :: float_or_str
  rate :: rat
  taxable_amount :: rat
  tax_amount :: rat

text \<open>
  The \<open>for\<close> loop of \<open>calculate_income_tax\<close> over the rest of the table, on the loop
  state \<open>total_tax\<close>, \<open>bracket_breakdown\<close>, \<open>remaining_income\<close>,
  \<open>previous_bracket_limit\<close>; \<open>break\<close> returns the state reached.
\<close>

fun bracket_loop ::
  "(limit \<times> rat) list \<Rightarrow> rat \<Rightarrow> bracket list \<Rightarrow> rat \<Rightarrow> limit \<Rightarrow> rat \<times> bracket list" where
  "bracket_loop [] total_tax bracket_breakdown remaining_income previous_bracket_limit =
     (total_tax, bracket_breakdown)"
| "bracket_loop (b # brackets) total_tax bracket_breakdown remaining_income
       previous_bracket_limit =
     (if remaining_income \<le> 0 then (total_tax, bracket_breakdown)
      else
        let (bracket_limit, rate) = b;
            bracket_size = limit_minus bracket_limit previous_bracket_limit;
            taxable_in_bracket = min_limit remaining_income bracket_size;
            tax_in_bracket = taxable_in_bracket * rate
        in bracket_loop brackets (total_tax + tax_in_bracket)
             (bracket_breakdown @
                [\<lparr>bracket_min = previous_bracket_limit,
                  bracket_max =
                    (case bracket_limit of Finite x \<Rightarrow> Float x | PosInf \<Rightarrow> Str ''unlimited''),
                  rate = rate * 100,
                  taxable_amount = py_round taxable_in_bracket 2,
                  tax_amount = py_round tax_in_bracket 2\<rparr>])
             (remaining_income - taxable_in_bracket)
             bracket_limit)"

record income_tax_result =
  total_tax :: rat
  effective_rate :: rat
  bracket_breakdown :: "bracket list"

definition calculate_income_tax :: "rat \<Rightarrow> income_tax_result" where
  "calculate_income_tax taxable_income =
     (if taxable_income \<le> 0 then
        \<lparr>total_tax = 0, effective_rate = 0, bracket_breakdown = []\<rparr>
      else
        let (total_tax, bracket_breakdown) =
              bracket_loop INCOME_TAX_BRACKETS 0 [] taxable_income (Finite 0);
            effective_rate =
              (if taxable_income > 0 then total_tax / taxable_income * 100 else 0)
        in \<lparr>total_tax = py_round total_tax 2,
            effective_rate = py_round effective_rate 2,
            bracket_breakdown = bracket_breakdown\<rparr>)"

record vat_result =
  vat_amount :: rat
  rate :: rat
  total_with_vat :: rat

definition calculate_vat :: "rat \<Rightarrow> vat_result" where
  "calculate_vat gross_income =
     (let vat_amount = gross_income * VAT_RATE;
          total_with_vat = gross_income + vat_amount
      in \<lparr>vat_amount = py_round vat_amount 2,
          vat_result.rate = VAT_RATE * 100,
          total_with_vat = py_round total_with_vat 2\<rparr>)"

record social_security_result =
  total_contribution :: rat
  main_insurance :: rat
  additional_contributions :: rat
  rate :: rat

definition calculate_social_security :: "rat \<Rightarrow> social_security_result" where
  "calculate_social_security gross_income =
     (let main_insurance = gross_income * EFKA_MAIN_RATE;
          additional_contributions = gross_income * EFKA_ADDITIONAL_RATE;
          total_contribution = gross_income * EFKA_TOTAL_RATE
      in \<lparr>total_contribution = py_round total_contribution 2,
          main_insurance = py_round main_insurance 2,
          additional_contributions = py_round additional_contributions 2,
          social_security_result.rate = EFKA_TOTAL_RATE * 100\<rparr>)"

record tax_summary =
  gross_income :: rat
  deductible_expenses :: rat
  taxable_income :: rat
  income_tax :: income_tax_result
  vat :: vat_result
  social_security :: social_security_result
  total_taxes :: rat
  total_obligations :: rat
  net_income :: rat
  effective_total_rate :: rat

definition calculate_all_taxes :: "rat \<Rightarrow> rat \<Rightarrow> tax_summary" where
  "calculate_all_taxes = (\<lambda>gross_income deductible_expenses.
     if gross_income \<le> 0 then
       \<lparr>gross_income = py_round gross_income 2,
        deductible_expenses = py_round deductible_expenses 2,
        taxable_income = 0,
        income_tax = calculate_income_tax 0,
        vat = calculate_vat 0,
        social_security = calculate_social_security 0,
        total_taxes = 0,
        total_obligations = 0,
        net_income = 0,
        effective_total_rate = 0\<rparr>
     else
       let taxable_income = calculate_taxable_income gross_income deductible_expenses;
           income_tax = calculate_income_tax taxable_income;
           vat = calculate_vat gross_income;
           social_security = calculate_social_security gross_income;
           total_taxes = total_tax income_tax + total_contribution social_security;
           total_obligations = total_taxes + vat_amount vat;
           net_income = gross_income - total_taxes;
           effective_total_rate =
             (if gross_income > 0 then total_taxes / gross_income * 100 else 0)
       in \<lparr>gross_income = py_round gross_income 2,
           deductible_expenses = py_round deductible_expenses 2,
           taxable_income = py_round taxable_income 2,
           income_tax = income_tax,
           vat = vat,
           social_security = social_security,
           total_taxes = py_round total_taxes 2,
           total_obligations = py_round total_obligations 2,
           net_income = py_round net_income 2,
           effective_total_rate = py_round effective_total_rate 2\<rparr>)"

section \<open>Payment schedule\<close>






section \<open>The bracket walk as the specification words it\<close>



section \<open>Rounding\<close>

text \<open>The floor of a literal fraction, for the evaluation of concrete amounts.\<close>

lemma floor_rat_divide_numeral [simp]:
  "\<lfloor>numeral a / numeral b :: rat\<rfloor> = numeral a div numeral b"
  by (metis floor_divide_of_int_eq of_int_numeral)

lemma floor_rat_minus_divide_numeral [simp]:
  "\<lfloor>- (numeral a / numeral b) :: rat\<rfloor> = - numeral a div numeral b"
  by (metis divide_minus_left floor_divide_of_int_eq of_int_neg_numeral of_int_numeral)

lemma floor_rat_one_divide_numeral [simp]:
  "\<lfloor>1 / numeral b :: rat\<rfloor> = 1 div numeral b"
  by (metis floor_divide_of_int_eq of_int_1 of_int_numeral)

lemma floor_rat_minus_one_divide_numeral [simp]:
  "\<lfloor>- (1 / numeral b) :: rat\<rfloor> = - 1 div numeral b"
  by (metis divide_minus_left floor_divide_of_int_eq of_int_1 of_int_minus of_int_numeral)

lemmas py_round_eval = py_round_def round_half_even_def Let_def

lemma round_half_even_of_int: "round_half_even (of_int k) = k"
  by (simp add: round_half_even_def)



lemma round_half_even_ge_floor: "\<lfloor>x\<rfloor> \<le> round_half_even x"
  unfolding round_half_even_def Let_def by simp

lemma round_half_even_le_floor1: "round_half_even x \<le> \<lfloor>x\<rfloor> + 1"
  unfolding round_half_even_def Let_def by simp

lemma round_half_even_mono:
  assumes "x \<le> y"
  shows "round_half_even x \<le> round_half_even y"
proof (cases "\<lfloor>x\<rfloor> = \<lfloor>y\<rfloor>")
  case True
  with assms show ?thesis
    unfolding round_half_even_def Let_def by (simp; linarith)
next
  case False
  from assms have "\<lfloor>x\<rfloor> \<le> \<lfloor>y\<rfloor>" by (rule floor_mono)
  with False have "\<lfloor>x\<rfloor> + 1 \<le> \<lfloor>y\<rfloor>" by simp
  with round_half_even_le_floor1 [of x] round_half_even_ge_floor [of y]
  show ?thesis by linarith
qed

lemma py_round_mono: "x \<le> y \<Longrightarrow> py_round x n \<le> py_round y n"
  unfolding py_round_def
  by (simp add: divide_right_mono round_half_even_mono)

lemma py_round_zero: "py_round 0 n = 0"
  by (simp add: py_round_def round_half_even_def)






lemma py_round_of_int: "py_round (of_int k) n = of_int k"
proof -
  have "of_int k * 10 ^ n = (of_int (k * 10 ^ n) :: rat)" by simp
  then show ?thesis
    unfolding py_round_def by (simp only: round_half_even_of_int) simp
qed

lemma py_round_numeral [simp]: "py_round (numeral k) n = numeral k"
  using py_round_of_int [of "numeral k" n] by simp




section \<open>Taxable income is floored at zero\<close>



section \<open>The flat rates and the results at zero\<close>

lemma calculate_income_tax_nonpositive:
  "T \<le> 0 \<Longrightarrow>
   calculate_income_tax T = \<lparr>total_tax = 0, effective_rate = 0, bracket_breakdown = []\<rparr>"
  by (simp add: calculate_income_tax_def)

lemma calculate_vat_zero:
  "calculate_vat 0 = \<lparr>vat_amount = 0, vat_result.rate = 24, total_with_vat = 0\<rparr>"
  by (simp add: calculate_vat_def VAT_RATE_def py_round_zero)

lemma calculate_social_security_zero:
  "calculate_social_security 0 =
     \<lparr>total_contribution = 0, main_insurance = 0, additional_contributions = 0,
      social_security_result.rate = 20\<rparr>"
  by (simp add: calculate_social_security_def EFKA_TOTAL_RATE_def EFKA_MAIN_RATE_def
      EFKA_ADDITIONAL_RATE_def py_round_zero)



section \<open>The summary for a gross income that is not positive\<close>

text \<open>
  C5. For every gross income \<open>g \<le> 0\<close> and every expenses value \<open>e\<close>,
  \<open>calculate_all_taxes g e\<close> is the short-circuit summary: taxable income 0, the three
  sub-results are the operations applied to 0 (empty bracket breakdown, VAT 0, social
  security 0), and total taxes, total obligations, net income and effective total rate
  are 0. The result is a plain value: the branch has no failure. (The two fields that
  echo the inputs hold \<open>round(g, 2)\<close> and \<open>round(e, 2)\<close>.)
\<close>

theorem calculate_all_taxes_nonpositive_gross:
  assumes "g \<le> 0"
  shows "taxable_income (calculate_all_taxes g e) = 0
    \<and> income_tax (calculate_all_taxes g e) = calculate_income_tax 0
    \<and> vat (calculate_all_taxes g e) = calculate_vat 0
    \<and> social_security (calculate_all_taxes g e) = calculate_social_security 0
    \<and> total_tax (income_tax (calculate_all_taxes g e)) = 0
    \<and> effective_rate (income_tax (calculate_all_taxes g e)) = 0
    \<and> bracket_breakdown (income_tax (calculate_all_taxes g e)) = []
    \<and> vat_amount (vat (calculate_all_taxes g e)) = 0
    \<and> total_with_vat (vat (calculate_all_taxes g e)) = 0
    \<and> total_contribution (social_security (calculate_all_taxes g e)) = 0
    \<and> main_insurance (social_security (calculate_all_taxes g e)) = 0
    \<and> additional_contributions (social_security (calculate_all_taxes g e)) = 0
    \<and> total_taxes (calculate_all_taxes g e) = 0
    \<and> total_obligations (calculate_all_taxes g e) = 0
    \<and> net_income (calculate_all_taxes g e) = 0
    \<and> effective_total_rate (calculate_all_taxes g e) = 0"
  using assms
  by (simp add: calculate_all_taxes_def calculate_income_tax_nonpositive calculate_vat_zero
      calculate_social_security_zero)

theorem calculate_all_taxes_nonpositive_gross_witness:
  "(- 5 :: rat) \<le> 0
    \<and> taxable_income (calculate_all_taxes (- 5) 3) = 0
    \<and> bracket_breakdown (income_tax (calculate_all_taxes (- 5) 3)) = []
    \<and> vat_amount (vat (calculate_all_taxes (- 5) 3)) = 0
    \<and> total_contribution (social_security (calculate_all_taxes (- 5) 3)) = 0
    \<and> total_taxes (calculate_all_taxes (- 5) 3) = 0
    \<and> total_obligations (calculate_all_taxes (- 5) 3) = 0
    \<and> net_income (calculate_all_taxes (- 5) 3) = 0
    \<and> effective_total_rate (calculate_all_taxes (- 5) 3) = 0"
proof -
  have h: "(- 5 :: rat) \<le> 0" by simp
  from calculate_all_taxes_nonpositive_gross [OF h, of 3] h show ?thesis
    by blast
qed

section \<open>The flat rates on a negative gross income\<close>




section \<open>Social security\<close>



section \<open>The summary for a positive gross income\<close>





section \<open>Frequencies and installments of the payment schedule\<close>














section \<open>Progressive bracket tax\<close>

subsection \<open>The loop and the walk of the specification\<close>





subsection \<open>The loop on each range of the taxable income\<close>

lemma bracket_loop_first:
  assumes "0 < T" and "T \<le> 10000"
  shows "bracket_loop INCOME_TAX_BRACKETS 0 [] T (Finite 0) =
     (T * 0.09,
      [\<lparr>bracket_min = Finite 0, bracket_max = Float 10000, bracket.rate = 9,
         taxable_amount = py_round T 2, tax_amount = py_round (T * 0.09) 2\<rparr>])"
  using assms by (simp add: INCOME_TAX_BRACKETS_def min_def Let_def)

lemma bracket_loop_second:
  assumes "10000 < T" and "T \<le> 20000"
  shows "bracket_loop INCOME_TAX_BRACKETS 0 [] T (Finite 0) =
     (900 + (T - 10000) * 0.22,
      [\<lparr>bracket_min = Finite 0, bracket_max = Float 10000, bracket.rate = 9,
         taxable_amount = 10000, tax_amount = 900\<rparr>,
       \<lparr>bracket_min = Finite 10000, bracket_max = Float 20000, bracket.rate = 22,
         taxable_amount = py_round (T - 10000) 2,
         tax_amount = py_round ((T - 10000) * 0.22) 2\<rparr>])"
  using assms by (simp add: INCOME_TAX_BRACKETS_def min_def Let_def)

lemma bracket_loop_third:
  assumes "20000 < T" and "T \<le> 30000"
  shows "bracket_loop INCOME_TAX_BRACKETS 0 [] T (Finite 0) =
     (3100 + (T - 20000) * 0.28,
      [\<lparr>bracket_min = Finite 0, bracket_max = Float 10000, bracket.rate = 9,
         taxable_amount = 10000, tax_amount = 900\<rparr>,
       \<lparr>bracket_min = Finite 10000, bracket_max = Float 20000, bracket.rate = 22,
         taxable_amount = 10000, tax_amount = 2200\<rparr>,
       \<lparr>bracket_min = Finite 20000, bracket_max = Float 30000, bracket.rate = 28,
         taxable_amount = py_round (T - 20000) 2,
         tax_amount = py_round ((T - 20000) * 0.28) 2\<rparr>])"
  using assms by (simp add: INCOME_TAX_BRACKETS_def min_def Let_def)

lemma bracket_loop_fourth:
  assumes "30000 < T" and "T \<le> 40000"
  shows "bracket_loop INCOME_TAX_BRACKETS 0 [] T (Finite 0) =
     (5900 + (T - 30000) * 0.36,
      [\<lparr>bracket_min = Finite 0, bracket_max = Float 10000, bracket.rate = 9,
         taxable_amount = 10000, tax_amount = 900\<rparr>,
       \<lparr>bracket_min = Finite 10000, bracket_max = Float 20000, bracket.rate = 22,
         taxable_amount = 10000, tax_amount = 2200\<rparr>,
       \<lparr>bracket_min = Finite 20000, bracket_max = Float 30000, bracket.rate = 28,
         taxable_amount = 10000, tax_amount = 2800\<rparr>,
       \<lparr>bracket_min = Finite 30000, bracket_max = Float 40000, bracket.rate = 36,
         taxable_amount = py_round (T - 30000) 2,
         tax_amount = py_round ((T - 30000) * 0.36) 2\<rparr>])"
  using assms by (simp add: INCOME_TAX_BRACKETS_def min_def Let_def)

lemma bracket_loop_fifth:
  assumes "40000 < T"
  shows "bracket_loop INCOME_TAX_BRACKETS 0 [] T (Finite 0) =
     (9500 + (T - 40000) * 0.44,
      [\<lparr>bracket_min = Finite 0, bracket_max = Float 10000, bracket.rate = 9,
         taxable_amount = 10000, tax_amount = 900\<rparr>,
       \<lparr>bracket_min = Finite 10000, bracket_max = Float 20000, bracket.rate = 22,
         taxable_amount = 10000, tax_amount = 2200\<rparr>,
       \<lparr>bracket_min = Finite 20000, bracket_max = Float 30000, bracket.rate = 28,
         taxable_amount = 10000, tax_amount = 2800\<rparr>,
       \<lparr>bracket_min = Finite 30000, bracket_max = Float 40000, bracket.rate = 36,
         taxable_amount = 10000, tax_amount = 3600\<rparr>,
       \<lparr>bracket_min = Finite 40000, bracket_max = Str ''unlimited'', bracket.rate = 44,
         taxable_amount = py_round (T - 40000) 2,
         tax_amount = py_round ((T - 40000) * 0.44) 2\<rparr>])"
  using assms by (simp add: INCOME_TAX_BRACKETS_def min_def Let_def)

lemma calculate_income_tax_positive:
  assumes "0 < T"
  shows "calculate_income_tax T =
     \<lparr>total_tax = py_round (fst (bracket_loop INCOME_TAX_BRACKETS 0 [] T (Finite 0))) 2,
      effective_rate =
        py_round (fst (bracket_loop INCOME_TAX_BRACKETS 0 [] T (Finite 0)) / T * 100) 2,
      bracket_breakdown = snd (bracket_loop INCOME_TAX_BRACKETS 0 [] T (Finite 0))\<rparr>"
  using assms by (simp add: calculate_income_tax_def split: prod.split)

lemma income_ranges:
  assumes "0 < T"
  obtains "T \<le> 10000"
    | "10000 < T" "T \<le> 20000"
    | "20000 < T" "T \<le> 30000"
    | "30000 < T" "T \<le> 40000"
    | "40000 < (T :: rat)"
  by linarith





subsection \<open>The taxable amounts of the breakdown\<close>






subsection \<open>Monotonicity of the total tax\<close>

lemma bracket_loop_total:
  assumes "0 < T"
  shows "fst (bracket_loop INCOME_TAX_BRACKETS 0 [] T (Finite 0)) =
     0.09 * min T 10000
     + 0.22 * min (max (T - 10000) 0) 10000
     + 0.28 * min (max (T - 20000) 0) 10000
     + 0.36 * min (max (T - 30000) 0) 10000
     + 0.44 * max (T - 40000) 0"
  using assms
proof (cases T rule: income_ranges)
  case 1
  with assms show ?thesis by (simp add: bracket_loop_first)
next
  case 2
  with assms show ?thesis by (simp add: bracket_loop_second)
next
  case 3
  with assms show ?thesis by (simp add: bracket_loop_third)
next
  case 4
  with assms show ?thesis by (simp add: bracket_loop_fourth)
next
  case 5
  with assms show ?thesis by (simp add: bracket_loop_fifth)
qed

lemma total_tax_closed_form:
  assumes "0 \<le> T"
  shows "total_tax (calculate_income_tax T) =
     py_round (0.09 * min T 10000
       + 0.22 * min (max (T - 10000) 0) 10000
       + 0.28 * min (max (T - 20000) 0) 10000
       + 0.36 * min (max (T - 30000) 0) 10000
       + 0.44 * max (T - 40000) 0) 2"
proof (cases "T = 0")
  case True
  then show ?thesis by (simp add: calculate_income_tax_def py_round_zero)
next
  case False
  with assms have "0 < T" by simp
  then show ?thesis
    by (simp only: calculate_income_tax_positive bracket_loop_total) simp
qed

lemma slice_mono:
  assumes "T1 \<le> (T2 :: rat)"
  shows "min (max (T1 - c) 0) w \<le> min (max (T2 - c) 0) w"
  using assms by (intro min.mono max.mono) simp_all

lemma bracket_sum_mono:
  fixes a1 :: rat
  assumes "a1 \<le> a2" and "b1 \<le> b2" and "c1 \<le> c2" and "d1 \<le> d2" and "e1 \<le> e2"
  shows "0.09 * a1 + 0.22 * b1 + 0.28 * c1 + 0.36 * d1 + 0.44 * e1
         \<le> 0.09 * a2 + 0.22 * b2 + 0.28 * c2 + 0.36 * d2 + 0.44 * e2"
  using assms by simp

text \<open>
  C7. For all taxable incomes \<open>0 \<le> T1 \<le> T2\<close>, the total income tax of \<open>T1\<close> is at most
  that of \<open>T2\<close>.
\<close>

theorem calculate_income_tax_monotone:
  assumes "0 \<le> T1" and "T1 \<le> T2"
  shows "total_tax (calculate_income_tax T1) \<le> total_tax (calculate_income_tax T2)"
proof -
  from assms have nonneg: "0 \<le> T2" by simp
  have first: "min T1 10000 \<le> min T2 10000"
    using assms(2) by (intro min.mono) simp_all
  have last: "max (T1 - 40000) 0 \<le> max (T2 - 40000) 0"
    using assms(2) by (intro max.mono) simp_all
  show ?thesis
    unfolding total_tax_closed_form [OF assms(1)] total_tax_closed_form [OF nonneg]
    by (intro py_round_mono bracket_sum_mono first last slice_mono assms(2))
qed

theorem calculate_income_tax_monotone_witness:
  "(0 :: rat) \<le> 15000 \<and> (15000 :: rat) \<le> 50000
    \<and> total_tax (calculate_income_tax 15000) = 2000
    \<and> total_tax (calculate_income_tax 50000) = 13900
    \<and> total_tax (calculate_income_tax 15000) \<le> total_tax (calculate_income_tax 50000)"
proof -
  have h: "(0 :: rat) \<le> 15000" "(15000 :: rat) \<le> 50000" by simp_all
  have "total_tax (calculate_income_tax 15000) = 2000"
    "total_tax (calculate_income_tax 50000) = 13900"
    by (simp_all add: calculate_income_tax_def INCOME_TAX_BRACKETS_def py_round_eval)
  with calculate_income_tax_monotone [OF h] h show ?thesis by blast
qed

end
